theory Spec2Isabelle
  imports Main
begin

section \<open>Data model\<close>

text \<open>
  The source file holds two variants of the service. The first one (lines 1-199) talks
  to the store only; the second one (lines 206-453) adds the optional cache and the
  identifier check. The definitions of the second variant keep the source's names; the
  ones of the first variant carry the suffix \<open>_v1\<close>.

  Instants and durations are integers counted in nanoseconds, as Go's \<open>time\<close> package
  counts them; \<open>time.Second\<close> is the package's constant.
\<close>

type_synonym time = int

definition time_Second :: time where
  "time_Second = 1000000000"

text \<open>\<open>type Product struct\<close> (lines 15-21 and 222-228).\<close>

record Product =
  ID :: string
  Name :: string
  PriceCents :: int
  Stock :: int
  CreatedAt :: string

text \<open>
  \<open>type createBody struct\<close> (lines 138-142 and 409-413). The two numbers are Go
  \<open>int\<close>s; the handlers compare them with zero and pass them on, and compute nothing
  with them, so they are integers here.
\<close>

record createBody =
  body_Name :: string
  body_PriceCents :: int
  body_Stock :: int

text \<open>
  A Go slice is either \<open>nil\<close> or backed by an array; \<open>make([]Product, 0)\<close> gives the
  second kind with no element, and \<open>append\<close> on either kind gives the second kind.
\<close>

datatype 'a slice = nil_slice | Slice "'a list"

definition make_slice :: "'a slice" where
  "make_slice = Slice []"

fun append_slice :: "'a slice \<Rightarrow> 'a \<Rightarrow> 'a slice" where
  "append_slice nil_slice x = Slice [x]"
| "append_slice (Slice xs) x = Slice (xs @ [x])"

section \<open>Library functions\<close>

text \<open>
  What the handlers take from packages outside the repository, and what no claim
  depends on, is a parameter:
  \<^item> \<open>RFC3339_UTC\<close>, the text that \<open>Format(time.RFC3339)\<close> writes for an instant in
    the location UTC, which is where \<open>createProduct\<close> puts the instant of the creation;
  \<^item> \<open>RFC3339_Scan\<close>, the text that \<open>Format(time.RFC3339)\<close> writes for an instant in
    the location in which \<open>Scan\<close> returns it from the store;
  \<^item> \<open>json_Product\<close>, the JSON object that \<open>encoding/json\<close> writes for one
    \<open>Product\<close>;
  \<^item> \<open>uuid_digits_ok\<close>, the digit and separator checks of \<open>uuid.Parse\<close>;
  \<^item> \<open>uuid_text\<close>, the text in which the store writes the \<open>uuid\<close> that a text
    denotes (the store compares identifiers as values of its type \<open>uuid\<close>, and
    writes them in one form, the form in which \<open>uuid.New().String()\<close> writes them).
\<close>

record lib =
  RFC3339_UTC :: "time \<Rightarrow> string"
  RFC3339_Scan :: "time \<Rightarrow> string"
  json_Product :: "Product \<Rightarrow> string"
  uuid_digits_ok :: "string \<Rightarrow> bool"
  uuid_text :: "string \<Rightarrow> string"

text \<open>
  \<open>json.Marshal\<close> of a slice of products: \<open>null\<close> for the nil slice, otherwise the
  objects between brackets, separated by commas. \<open>Encoder.Encode\<close> writes the same text
  followed by a line feed.
\<close>

fun join_comma :: "string list \<Rightarrow> string" where
  "join_comma [] = []"
| "join_comma [x] = x"
| "join_comma (x # y # ys) = x @ '','' @ join_comma (y # ys)"

fun json_Marshal :: "lib \<Rightarrow> Product slice \<Rightarrow> string" where
  "json_Marshal L nil_slice = ''null''"
| "json_Marshal L (Slice ps) = ''['' @ join_comma (map (json_Product L) ps) @ '']''"

definition line_feed :: string where
  "line_feed = [CHR 0x0A]"

definition json_Encode_list :: "lib \<Rightarrow> Product slice \<Rightarrow> string" where
  "json_Encode_list L list = json_Marshal L list @ line_feed"

definition json_Encode :: "lib \<Rightarrow> Product \<Rightarrow> string" where
  "json_Encode L p = json_Product L p @ line_feed"

text \<open>
  \<open>uuid.Parse\<close> accepts a text of 36, 45, 38 or 32 bytes (the plain form, the form with
  the \<open>urn:uuid:\<close> prefix, the form in braces, the form without hyphens) and refuses
  every other length; what it checks inside a text of an accepted length is the
  parameter \<open>uuid_digits_ok\<close>. The result is \<open>True\<close> when the returned error is nil.
\<close>

definition uuid_Parse :: "lib \<Rightarrow> string \<Rightarrow> bool" where
  "uuid_Parse L s =
     (if length s = 36 \<or> length s = 36 + 9 \<or> length s = 36 + 2 \<or> length s = 32
      then uuid_digits_ok L s else False)"

definition strings_TrimPrefix :: "string \<Rightarrow> string \<Rightarrow> string" where
  "strings_TrimPrefix s p = (if take (length p) s = p then drop (length p) s else s)"

section \<open>The store\<close>

text \<open>
  The table \<open>products\<close> of \<open>initSchema\<close> (lines 88-99 and 310-321): a row has an
  identifier that is the primary key, a name, two columns of SQL type \<open>int\<close> (32 bits)
  and the creation instant. The table is the list of its rows in insertion order.
\<close>

record row =
  r_id :: string
  r_name :: string
  r_price_cents :: int
  r_stock :: int
  r_created_at :: time

definition int4 :: "int \<Rightarrow> bool" where
  "int4 n \<longleftrightarrow> - 2147483648 \<le> n \<and> n \<le> 2147483647"

datatype stmt = INSERT row | DELETE string

text \<open>
  \<open>db.Exec\<close>: the second argument says that the call fails for a reason of the
  store's own (connection lost, statement or parameter refused); an \<open>INSERT\<close> fails as
  well when the key is taken or a number does not fit its column. \<open>None\<close> is a non-nil
  error, and the table is then unchanged. A \<open>DELETE\<close> removes the rows whose
  identifier is the one that the text denotes, and removing nothing is no error.
\<close>

fun db_Exec :: "lib \<Rightarrow> bool \<Rightarrow> row list \<Rightarrow> stmt \<Rightarrow> row list option" where
  "db_Exec L err t (INSERT r) =
     (if err \<or> r_id r \<in> set (map r_id t) \<or> \<not> int4 (r_price_cents r) \<or> \<not> int4 (r_stock r)
      then None else Some (t @ [r]))"
| "db_Exec L err t (DELETE i) =
     (if err then None else Some (filter (\<lambda>r. r_id r \<noteq> uuid_text L i) t))"

text \<open>
  \<open>db.Query\<close> with the statement
  \<open>SELECT id, name, price_cents, stock, created_at FROM products ORDER BY created_at DESC\<close>:
  every row, the latest first.
\<close>

definition db_Query :: "bool \<Rightarrow> row list \<Rightarrow> row list option" where
  "db_Query err t = (if err then None else Some (sort_key (\<lambda>r. - r_created_at r) t))"

section \<open>The cache\<close>

text \<open>
  The cache maps a key to a value and the instant at which the value expires. The
  first argument of each operation says that the call fails; a failed call changes
  nothing. \<open>Get\<close> returns an error (here \<open>None\<close>) for a key that is absent or expired.
\<close>

type_synonym cache = "string \<Rightarrow> (string \<times> time) option"

definition redis_Get :: "bool \<Rightarrow> time \<Rightarrow> cache \<Rightarrow> string \<Rightarrow> string option" where
  "redis_Get err t c k =
     (if err then None
      else (case c k of
              None \<Rightarrow> None
            | Some (v, expiry) \<Rightarrow> if t < expiry then Some v else None))"

definition redis_Set :: "bool \<Rightarrow> time \<Rightarrow> cache \<Rightarrow> string \<Rightarrow> string \<Rightarrow> time \<Rightarrow> cache" where
  "redis_Set err t c k v ttl = (if err then c else c(k \<mapsto> (v, t + ttl)))"

definition redis_Del :: "bool \<Rightarrow> cache \<Rightarrow> string \<Rightarrow> cache" where
  "redis_Del err c k = (if err then c else c(k := None))"

section \<open>Requests, responses and the environment of a call\<close>

text \<open>
  The state is what the two global handles reach: the table behind \<open>db\<close>, and behind
  \<open>rdb\<close> the cache, or nothing when \<open>rdb\<close> is nil (line 232).
\<close>

record state =
  table :: "row list"
  rdb :: "cache option"

text \<open>
  The environment of one call: the clock, the identifier that \<open>uuid.New\<close> draws, and
  for each call to the store or to the cache whether it fails.
\<close>

record env =
  now :: time
  new_id :: string
  get_err :: bool
  set_err :: bool
  del_err :: bool
  query_err :: bool
  scan_err :: bool
  exec_err :: bool

text \<open>
  A request is its method, its path and what \<open>Decode\<close> makes of its body (\<open>None\<close> when
  the body is not the JSON of a \<open>createBody\<close>).
\<close>

record request =
  Method :: string
  Path :: string
  decoded :: "createBody option"

record response =
  status :: nat
  content_type :: string
  body :: string

text \<open>The calls a handler makes to the store and to the cache, in order.\<close>

datatype event =
    CacheGet string
  | CacheSet string string time
  | CacheDel string
  | DbQuery
  | DbExec stmt

record result =
  resp :: response
  trace :: "event list"
  post :: state

text \<open>\<open>http.Error\<close> writes the message and a line feed as plain text.\<close>

definition http_Error :: "string \<Rightarrow> nat \<Rightarrow> response" where
  "http_Error msg code =
     \<lparr>status = code, content_type = ''text/plain; charset=utf-8'', body = msg @ line_feed\<rparr>"

definition json_response :: "nat \<Rightarrow> string \<Rightarrow> response" where
  "json_response code b = \<lparr>status = code, content_type = ''application/json'', body = b\<rparr>"

section \<open>The handlers of the second variant\<close>

text \<open>
  The loop over the rows (lines 389-398): \<open>Scan\<close> fills a product, the instant is
  formatted, the product is appended; a failing \<open>Scan\<close> ends the request.
\<close>

definition scan :: "lib \<Rightarrow> row \<Rightarrow> Product" where
  "scan L r =
     \<lparr>ID = r_id r, Name = r_name r, PriceCents = r_price_cents r, Stock = r_stock r,
      CreatedAt = RFC3339_Scan L (r_created_at r)\<rparr>"

fun scan_rows :: "lib \<Rightarrow> bool \<Rightarrow> row list \<Rightarrow> Product slice \<Rightarrow> Product slice option" where
  "scan_rows L err [] list = Some list"
| "scan_rows L err (r # rs) list =
     (if err then None else scan_rows L err rs (append_slice list (scan L r)))"

text \<open>
  \<open>getProducts\<close> (lines 368-407) in two parts, because another request can run
  between them: the first part goes from the probe of the cache to the written
  response (lines 372-403), the second part is the population of the cache (lines
  404-406). The first part returns the response, its calls, and the bytes to store
  when the response came from the store.
\<close>

definition cache_probe :: "env \<Rightarrow> state \<Rightarrow> string option" where
  "cache_probe e s =
     (case rdb s of
        None \<Rightarrow> None
      | Some c \<Rightarrow>
          (case redis_Get (get_err e) (now e) c ''products:all'' of
             None \<Rightarrow> None
           | Some v \<Rightarrow> if v \<noteq> [] then Some v else None))"

definition probe_trace :: "state \<Rightarrow> event list" where
  "probe_trace s = (case rdb s of None \<Rightarrow> [] | Some c \<Rightarrow> [CacheGet ''products:all''])"

definition getProducts_read :: "lib \<Rightarrow> env \<Rightarrow> state \<Rightarrow> response \<times> event list \<times> string option" where
  "getProducts_read L e s =
     (case cache_probe e s of
        Some v \<Rightarrow> (json_response 200 v, probe_trace s, None)
      | None \<Rightarrow>
          (case db_Query (query_err e) (table s) of
             None \<Rightarrow> (http_Error ''db error'' 500, probe_trace s @ [DbQuery], None)
           | Some rows \<Rightarrow>
               (case scan_rows L (scan_err e) rows make_slice of
                  None \<Rightarrow> (http_Error ''scan error'' 500, probe_trace s @ [DbQuery], None)
                | Some list \<Rightarrow>
                    (let b = json_Marshal L list
                     in (json_response 200 b, probe_trace s @ [DbQuery], Some b)))))"

definition getProducts_populate :: "env \<Rightarrow> string \<Rightarrow> state \<Rightarrow> event list \<times> state" where
  "getProducts_populate e b s =
     (case rdb s of
        None \<Rightarrow> ([], s)
      | Some c \<Rightarrow>
          ([CacheSet ''products:all'' b (30 * time_Second)],
           s\<lparr>rdb := Some (redis_Set (set_err e) (now e) c ''products:all'' b (30 * time_Second))\<rparr>))"

definition getProducts :: "lib \<Rightarrow> env \<Rightarrow> state \<Rightarrow> result" where
  "getProducts L e s =
     (case getProducts_read L e s of
        (r, tr, None) \<Rightarrow> \<lparr>resp = r, trace = tr, post = s\<rparr>
      | (r, tr, Some b) \<Rightarrow>
          (case getProducts_populate e b s of
             (tr', s') \<Rightarrow> \<lparr>resp = r, trace = tr @ tr', post = s'\<rparr>))"

text \<open>The invalidation that both writes end with (lines 361-364 and 439-442).\<close>

definition invalidate :: "env \<Rightarrow> state \<Rightarrow> event list \<times> state" where
  "invalidate e s =
     (case rdb s of
        None \<Rightarrow> ([], s)
      | Some c \<Rightarrow>
          ([CacheDel ''products:all''],
           s\<lparr>rdb := Some (redis_Del (del_err e) c ''products:all'')\<rparr>))"

text \<open>\<open>createProduct\<close> (lines 415-453).\<close>

definition new_row :: "env \<Rightarrow> createBody \<Rightarrow> row" where
  "new_row e b =
     \<lparr>r_id = new_id e, r_name = body_Name b, r_price_cents = body_PriceCents b,
      r_stock = body_Stock b, r_created_at = now e\<rparr>"

definition new_product :: "lib \<Rightarrow> env \<Rightarrow> createBody \<Rightarrow> Product" where
  "new_product L e b =
     \<lparr>ID = new_id e, Name = body_Name b, PriceCents = body_PriceCents b,
      Stock = body_Stock b, CreatedAt = RFC3339_UTC L (now e)\<rparr>"

definition createProduct :: "lib \<Rightarrow> env \<Rightarrow> state \<Rightarrow> request \<Rightarrow> result" where
  "createProduct L e s r =
     (case decoded r of
        None \<Rightarrow> \<lparr>resp = http_Error ''bad json'' 400, trace = [], post = s\<rparr>
      | Some b \<Rightarrow>
          if body_Name b = [] \<or> body_PriceCents b \<le> 0 \<or> body_Stock b < 0
          then \<lparr>resp = http_Error ''invalid fields'' 400, trace = [], post = s\<rparr>
          else
            (case db_Exec L (exec_err e) (table s) (INSERT (new_row e b)) of
               None \<Rightarrow>
                 \<lparr>resp = http_Error ''insert error'' 500,
                  trace = [DbExec (INSERT (new_row e b))], post = s\<rparr>
             | Some t' \<Rightarrow>
                 (case invalidate e (s\<lparr>table := t'\<rparr>) of
                    (tr, s') \<Rightarrow>
                      \<lparr>resp = json_response 201 (json_Encode L (new_product L e b)),
                       trace = DbExec (INSERT (new_row e b)) # tr, post = s'\<rparr>)))"

text \<open>\<open>productItemHandler\<close> (lines 341-366).\<close>

definition productItemHandler :: "lib \<Rightarrow> env \<Rightarrow> state \<Rightarrow> request \<Rightarrow> result" where
  "productItemHandler L e s r =
     (if Method r \<noteq> ''DELETE''
      then \<lparr>resp = http_Error ''method not allowed'' 405, trace = [], post = s\<rparr>
      else
        (let i = strings_TrimPrefix (Path r) ''/products/''
         in if i = []
            then \<lparr>resp = http_Error ''missing id'' 400, trace = [], post = s\<rparr>
            else if \<not> uuid_Parse L i
            then \<lparr>resp = http_Error ''invalid id (must be UUID)'' 400, trace = [], post = s\<rparr>
            else
              (case db_Exec L (exec_err e) (table s) (DELETE i) of
                 None \<Rightarrow>
                   \<lparr>resp = http_Error ''db error'' 500, trace = [DbExec (DELETE i)], post = s\<rparr>
               | Some t' \<Rightarrow>
                   (case invalidate e (s\<lparr>table := t'\<rparr>) of
                      (tr, s') \<Rightarrow>
                        \<lparr>resp = \<lparr>status = 204, content_type = [], body = []\<rparr>,
                         trace = DbExec (DELETE i) # tr, post = s'\<rparr>))))"

text \<open>\<open>productsHandler\<close> (lines 330-339).\<close>

definition productsHandler :: "lib \<Rightarrow> env \<Rightarrow> state \<Rightarrow> request \<Rightarrow> result" where
  "productsHandler L e s r =
     (if Method r = ''GET'' then getProducts L e s
      else if Method r = ''POST'' then createProduct L e s r
      else \<lparr>resp = http_Error ''method not allowed'' 405, trace = [], post = s\<rparr>)"

section \<open>The handlers of the first variant\<close>

text \<open>
  The first variant has no cache: its state is the table. A result is the response,
  the calls and the table afterwards.
\<close>

record result_v1 =
  resp_v1 :: response
  trace_v1 :: "event list"
  post_v1 :: "row list"

text \<open>\<open>getProducts\<close> (lines 112-136).\<close>

definition getProducts_v1 :: "lib \<Rightarrow> env \<Rightarrow> row list \<Rightarrow> result_v1" where
  "getProducts_v1 L e t =
     (case db_Query (query_err e) t of
        None \<Rightarrow> \<lparr>resp_v1 = http_Error ''db error'' 500, trace_v1 = [DbQuery], post_v1 = t\<rparr>
      | Some rows \<Rightarrow>
          (case scan_rows L (scan_err e) rows make_slice of
             None \<Rightarrow>
               \<lparr>resp_v1 = http_Error ''scan error'' 500, trace_v1 = [DbQuery], post_v1 = t\<rparr>
           | Some list \<Rightarrow>
               \<lparr>resp_v1 = json_response 200 (json_Encode_list L list),
                trace_v1 = [DbQuery], post_v1 = t\<rparr>))"

text \<open>\<open>createProduct\<close> (lines 144-178).\<close>

definition createProduct_v1 :: "lib \<Rightarrow> env \<Rightarrow> row list \<Rightarrow> request \<Rightarrow> result_v1" where
  "createProduct_v1 L e t r =
     (case decoded r of
        None \<Rightarrow> \<lparr>resp_v1 = http_Error ''bad json'' 400, trace_v1 = [], post_v1 = t\<rparr>
      | Some b \<Rightarrow>
          if body_Name b = [] \<or> body_PriceCents b \<le> 0 \<or> body_Stock b < 0
          then \<lparr>resp_v1 = http_Error ''invalid fields'' 400, trace_v1 = [], post_v1 = t\<rparr>
          else
            (case db_Exec L (exec_err e) t (INSERT (new_row e b)) of
               None \<Rightarrow>
                 \<lparr>resp_v1 = http_Error ''insert error'' 500,
                  trace_v1 = [DbExec (INSERT (new_row e b))], post_v1 = t\<rparr>
             | Some t' \<Rightarrow>
                 \<lparr>resp_v1 = json_response 201 (json_Encode L (new_product L e b)),
                  trace_v1 = [DbExec (INSERT (new_row e b))], post_v1 = t'\<rparr>))"

text \<open>
  \<open>productItemHandler\<close> (lines 181-199). The identifier is the path from its eleventh
  byte on; the slice expression panics on a shorter path, which is the result \<open>None\<close>.
\<close>

definition productItemHandler_v1 :: "lib \<Rightarrow> env \<Rightarrow> row list \<Rightarrow> request \<Rightarrow> result_v1 option" where
  "productItemHandler_v1 L e t r =
     (if Method r \<noteq> ''DELETE''
      then Some \<lparr>resp_v1 = http_Error ''method not allowed'' 405, trace_v1 = [], post_v1 = t\<rparr>
      else if length (Path r) < length ''/products/'' then None
      else
        (let i = drop (length ''/products/'') (Path r)
         in if i = []
            then Some \<lparr>resp_v1 = http_Error ''missing id'' 400, trace_v1 = [], post_v1 = t\<rparr>
            else
              (case db_Exec L (exec_err e) t (DELETE i) of
                 None \<Rightarrow>
                   Some \<lparr>resp_v1 = http_Error ''db error'' 500,
                         trace_v1 = [DbExec (DELETE i)], post_v1 = t\<rparr>
               | Some t' \<Rightarrow>
                   Some \<lparr>resp_v1 = \<lparr>status = 204, content_type = [], body = []\<rparr>,
                         trace_v1 = [DbExec (DELETE i)], post_v1 = t'\<rparr>)))"

section \<open>Sequences of requests\<close>

text \<open>
  The listing that a read from the store returns for a table: the rows in the
  order of the query, scanned and serialized.
\<close>

definition sorted_desc :: "row list \<Rightarrow> bool" where
  "sorted_desc rows = sorted_wrt (\<lambda>a b. r_created_at b \<le> r_created_at a) rows"

definition listing :: "lib \<Rightarrow> row list \<Rightarrow> string" where
  "listing L t = json_Marshal L (Slice (map (scan L) (sort_key (\<lambda>r. - r_created_at r) t)))"

text \<open>The entry under the key of the listing, when there is a cache and it has one.\<close>

definition cached :: "state \<Rightarrow> (string \<times> time) option" where
  "cached s = (case rdb s of None \<Rightarrow> None | Some c \<Rightarrow> c ''products:all'')"


definition ttl_bounded :: "time \<Rightarrow> state \<Rightarrow> bool" where
  "ttl_bounded t s =
     (case cached s of None \<Rightarrow> True | Some (v, expiry) \<Rightarrow> expiry \<le> t + 30 * time_Second)"

definition ordered_value :: "lib \<Rightarrow> string \<Rightarrow> bool" where
  "ordered_value L v \<longleftrightarrow>
     (\<exists>rows. sorted_desc rows \<and> v = json_Marshal L (Slice (map (scan L) rows)))"

definition ordered_cache :: "lib \<Rightarrow> state \<Rightarrow> bool" where
  "ordered_cache L s =
     (case cached s of None \<Rightarrow> True | Some (v, expiry) \<Rightarrow> ordered_value L v)"

text \<open>
  \<open>no_cache s\<close> is the state \<open>s\<close> of a service started without a cache, and
  \<open>expired_by t s\<close> says that the entry, if any, has expired at the instant \<open>t\<close>.
\<close>

definition no_cache :: "state \<Rightarrow> state" where
  "no_cache s = s\<lparr>rdb := None\<rparr>"

definition expired_by :: "time \<Rightarrow> state \<Rightarrow> bool" where
  "expired_by t s = (case cached s of None \<Rightarrow> True | Some (v, expiry) \<Rightarrow> expiry \<le> t)"


text \<open>
  The states that the service reaches from a state \<open>s0\<close>: by a whole request of any
  of the three kinds, and by the second part of a list request whose first part read
  the store in another reachable state, with other requests served in between.
\<close>

inductive reachable :: "lib \<Rightarrow> state \<Rightarrow> state \<Rightarrow> bool" for L :: lib and s0 :: state where
  start: "reachable L s0 s0"
| products: "reachable L s0 s \<Longrightarrow> reachable L s0 (post (productsHandler L e s r))"
| item: "reachable L s0 s \<Longrightarrow> reachable L s0 (post (productItemHandler L e s r))"
| late_populate:
    "reachable L s0 s1 \<Longrightarrow> getProducts_read L e s1 = (rp, tr, Some b) \<Longrightarrow>
     reachable L s0 s2 \<Longrightarrow> reachable L s0 (snd (getProducts_populate e' b s2))"

section \<open>Concrete inputs\<close>

text \<open>
  A library instance, environments, requests and states on which the theorems below
  are evaluated.
\<close>

definition lib0 :: lib where
  "lib0 =
     \<lparr>RFC3339_UTC = (\<lambda>t. if t = 0 then ''1970-01-01T00:00:00Z'' else ''later''),
      RFC3339_Scan = (\<lambda>t. if t = 0 then ''1970-01-01T00:00:00Z'' else ''later''),
      json_Product = (\<lambda>p. ''{'' @ ID p @ '','' @ Name p @ '','' @ CreatedAt p @ ''}''),
      uuid_digits_ok = (\<lambda>s. True), uuid_text = (\<lambda>s. s)\<rparr>"

definition env0 :: env where
  "env0 =
     \<lparr>now = 0, new_id = ''6ba7b810-9dad-11d1-80b4-00c04fd430c8'', get_err = False,
      set_err = False, del_err = False, query_err = False, scan_err = False,
      exec_err = False\<rparr>"

definition widget :: createBody where
  "widget = \<lparr>body_Name = ''Widget'', body_PriceCents = 500, body_Stock = 10\<rparr>"

definition post_widget :: request where
  "post_widget = \<lparr>Method = ''POST'', Path = ''/products'', decoded = Some widget\<rparr>"

definition widget_row :: row where
  "widget_row =
     \<lparr>r_id = ''6ba7b810-9dad-11d1-80b4-00c04fd430c8'', r_name = ''Widget'',
      r_price_cents = 500, r_stock = 10, r_created_at = 0\<rparr>"

definition delete_widget :: request where
  "delete_widget =
     \<lparr>Method = ''DELETE'', Path = ''/products/6ba7b810-9dad-11d1-80b4-00c04fd430c8'',
      decoded = None\<rparr>"

definition delete_not_a_uuid :: request where
  "delete_not_a_uuid =
     \<lparr>Method = ''DELETE'', Path = ''/products/not-a-uuid'', decoded = None\<rparr>"

definition empty_cold :: state where
  "empty_cold = \<lparr>table = [], rdb = Some (\<lambda>k. None)\<rparr>"

definition empty_nocache :: state where
  "empty_nocache = \<lparr>table = [], rdb = None\<rparr>"

definition env_at :: "time \<Rightarrow> env" where
  "env_at t = env0\<lparr>now := t\<rparr>"

text \<open>
  A cache whose entry is the listing of the empty table and expires at the twentieth
  second, and the state of an empty table with this cache.
\<close>

definition stale_cache :: cache where
  "stale_cache = (\<lambda>k. if k = ''products:all'' then Some (''[]'', 20 * time_Second) else None)"

definition empty_warm :: state where
  "empty_warm = \<lparr>table = [], rdb = Some stale_cache\<rparr>"

text \<open>A cache whose entry is the empty text, and a state with one product and this cache.\<close>

definition blank_cache :: cache where
  "blank_cache = (\<lambda>k. if k = ''products:all'' then Some ([], 20 * time_Second) else None)"

definition widget_blank :: state where
  "widget_blank = \<lparr>table = [widget_row], rdb = Some blank_cache\<rparr>"

text \<open>A body that passes the validation and whose price needs 33 bits.\<close>

definition costly :: createBody where
  "costly = \<lparr>body_Name = ''Widget'', body_PriceCents = 2147483648, body_Stock = 0\<rparr>"

definition post_costly :: request where
  "post_costly = \<lparr>Method = ''POST'', Path = ''/products'', decoded = Some costly\<rparr>"

text \<open>A body with an empty name.\<close>

definition nameless :: createBody where
  "nameless = \<lparr>body_Name = [], body_PriceCents = 500, body_Stock = 10\<rparr>"

definition post_nameless :: request where
  "post_nameless = \<lparr>Method = ''POST'', Path = ''/products'', decoded = Some nameless\<rparr>"





text \<open>A table of two rows, the older one inserted first, and a list request.\<close>

definition two_rows :: "row list" where
  "two_rows =
     [\<lparr>r_id = ''a'', r_name = ''Old'', r_price_cents = 1, r_stock = 0, r_created_at = 0\<rparr>,
      \<lparr>r_id = ''b'', r_name = ''New'', r_price_cents = 2, r_stock = 0, r_created_at = 7\<rparr>]"

definition two_cold :: state where
  "two_cold = \<lparr>table = two_rows, rdb = Some (\<lambda>k. None)\<rparr>"

definition get_products :: request where
  "get_products = \<lparr>Method = ''GET'', Path = ''/products'', decoded = None\<rparr>"

text \<open>An environment in which every call to the cache fails.\<close>

definition env_cache_down :: env where
  "env_cache_down = env0\<lparr>get_err := True, set_err := True, del_err := True\<rparr>"

text \<open>
  A create request whose invalidation fails, in the state with the unexpired entry,
  and the list request that follows it one second later.
\<close>

definition env_del_fails :: env where
  "env_del_fails = env0\<lparr>del_err := True\<rparr>"



section \<open>Unfolding the definitions on concrete inputs\<close>

lemmas model_defs =
  getProducts_def getProducts_read_def getProducts_populate_def cache_probe_def
  probe_trace_def redis_Get_def redis_Set_def redis_Del_def db_Query_def make_slice_def
  invalidate_def createProduct_def productItemHandler_def productsHandler_def new_row_def
  new_product_def int4_def json_response_def http_Error_def json_Encode_def
  json_Encode_list_def line_feed_def Let_def scan_def strings_TrimPrefix_def uuid_Parse_def
  time_Second_def cached_def getProducts_v1_def createProduct_v1_def
  productItemHandler_v1_def

lemmas input_defs =
  lib0_def env0_def env_at_def env_del_fails_def env_cache_down_def two_rows_def two_cold_def
  get_products_def widget_def post_widget_def widget_row_def
  delete_widget_def delete_not_a_uuid_def empty_cold_def empty_nocache_def empty_warm_def
  stale_cache_def blank_cache_def widget_blank_def costly_def post_costly_def nameless_def
  post_nameless_def

section \<open>Facts about the store, the cache and the read path\<close>

lemma scan_rows_ok: "scan_rows L False rs (Slice acc) = Some (Slice (acc @ map (scan L) rs))"
  by (induction rs arbitrary: acc) auto

lemma scan_rows_Some:
  "scan_rows L err rs (Slice acc) = Some list \<Longrightarrow> list = Slice (acc @ map (scan L) rs)"
proof (induction rs arbitrary: acc)
  case Nil
  then show ?case by simp
next
  case (Cons a rs)
  from Cons.prems have "scan_rows L err rs (Slice (acc @ [scan L a])) = Some list"
    by (simp split: if_splits)
  from Cons.IH [OF this] show ?case by simp
qed

lemma scan_rows_make:
  "scan_rows L err rs make_slice = Some list \<Longrightarrow> list = Slice (map (scan L) rs)"
  using scan_rows_Some [of L err rs "[]" list] by (simp add: make_slice_def)

lemma scan_rows_make_ok: "scan_rows L False rs make_slice = Some (Slice (map (scan L) rs))"
  using scan_rows_ok [of L rs "[]"] by (simp add: make_slice_def)


lemma sorted_desc_query: "sorted_desc (sort_key (\<lambda>r. - r_created_at r) t)"
proof -
  have "sorted (map (\<lambda>r. - r_created_at r) (sort_key (\<lambda>r. - r_created_at r) t))"
    by (rule sorted_sort_key)
  then show ?thesis
    by (simp add: sorted_desc_def sorted_map)
qed

lemma db_Query_Some:
  "db_Query err t = Some rows \<Longrightarrow>
     sorted_desc rows \<and> set rows = set t \<and> length rows = length t \<and>
     json_Marshal L (Slice (map (scan L) rows)) = listing L t"
  by (auto simp: db_Query_def listing_def sorted_desc_query split: if_splits)

lemma status_http_Error [simp]: "status (http_Error m c) = c"
  by (simp add: http_Error_def)

lemma status_json_response [simp]: "status (json_response c b) = c"
  by (simp add: json_response_def)

lemma body_json_response [simp]: "body (json_response c b) = b"
  by (simp add: json_response_def)

lemma read_hit:
  "cache_probe e s = Some v \<Longrightarrow>
     getProducts_read L e s = (json_response 200 v, probe_trace s, None)"
  by (simp add: getProducts_read_def)

lemma read_miss:
  "cache_probe e s = None \<Longrightarrow> db_Query (query_err e) (table s) = Some rows \<Longrightarrow>
   scan_rows L (scan_err e) rows make_slice = Some list \<Longrightarrow>
     getProducts_read L e s =
       (json_response 200 (listing L (table s)), probe_trace s @ [DbQuery],
        Some (listing L (table s)))"
  using scan_rows_make [of L "scan_err e" rows list] db_Query_Some [of "query_err e" "table s" rows L]
  by (simp add: getProducts_read_def Let_def)

lemma read_cases:
  assumes "getProducts_read L e s = (r, tr, ob)" and "status r = 200"
  shows "(cache_probe e s = Some (body r) \<and> ob = None) \<or>
     (cache_probe e s = None \<and> body r = listing L (table s) \<and> ob = Some (listing L (table s)))"
proof (cases "cache_probe e s")
  case (Some v)
  with assms read_hit [of e s v L] show ?thesis by auto
next
  case None
  show ?thesis
  proof (cases "db_Query (query_err e) (table s)")
    case no_rows: None
    with None assms show ?thesis by (auto simp: getProducts_read_def)
  next
    case (Some rows)
    show ?thesis
    proof (cases "scan_rows L (scan_err e) rows make_slice")
      case no_list: None
      with None Some assms show ?thesis by (auto simp: getProducts_read_def)
    next
      case some_list: (Some list)
      from read_miss [OF None Some some_list] assms None show ?thesis by auto
    qed
  qed
qed

lemma read_Some:
  assumes "getProducts_read L e s = (r, tr, Some b)"
  shows "b = listing L (table s) \<and> r = json_response 200 b \<and> cache_probe e s = None"
proof (cases "cache_probe e s")
  case (Some v)
  with assms read_hit [of e s v L] show ?thesis by auto
next
  case None
  show ?thesis
  proof (cases "db_Query (query_err e) (table s)")
    case no_rows: None
    with None assms show ?thesis by (auto simp: getProducts_read_def)
  next
    case (Some rows)
    show ?thesis
    proof (cases "scan_rows L (scan_err e) rows make_slice")
      case no_list: None
      with None Some assms show ?thesis by (auto simp: getProducts_read_def)
    next
      case some_list: (Some list)
      from read_miss [OF None Some some_list] assms None show ?thesis by auto
    qed
  qed
qed

lemma resp_getProducts: "resp (getProducts L e s) = fst (getProducts_read L e s)"
  by (auto simp: getProducts_def split: prod.splits option.splits)

lemma post_getProducts:
  "post (getProducts L e s) = s \<or>
   post (getProducts L e s) = snd (getProducts_populate e (listing L (table s)) s)"
proof (cases "getProducts_read L e s")
  case (fields r tr ob)
  show ?thesis
  proof (cases ob)
    case None
    with fields show ?thesis by (simp add: getProducts_def)
  next
    case (Some b)
    with fields read_Some [of L e s r tr b] show ?thesis
      by (auto simp: getProducts_def split: prod.splits)
  qed
qed


lemma cached_populate:
  "cached (snd (getProducts_populate e b s)) =
     (if rdb s = None \<or> set_err e then cached s else Some (b, now e + 30 * time_Second))"
  by (auto simp: getProducts_populate_def cached_def redis_Set_def split: option.splits)



lemma cached_table [simp]: "cached (s\<lparr>table := t\<rparr>) = cached s"
  by (simp add: cached_def)



lemma probe_cached:
  "cache_probe e s = Some v \<Longrightarrow> \<exists>expiry. cached s = Some (v, expiry) \<and> now e < expiry \<and> v \<noteq> []"
  by (auto simp: cache_probe_def cached_def redis_Get_def split: option.splits if_splits)

lemma probe_None:
  "expired_by (now e) s \<Longrightarrow> cache_probe e s = None"
  by (auto simp: cache_probe_def cached_def expired_by_def redis_Get_def split: option.splits)










text \<open>A create or a delete leaves the entry of the cache as it was or removes it.\<close>

lemma cached_createProduct:
  "cached (post (createProduct L e s r)) = cached s \<or>
   cached (post (createProduct L e s r)) = None"
  by (auto simp: createProduct_def cached_def invalidate_def redis_Del_def
      split: option.splits prod.splits)

lemma cached_productItemHandler:
  "cached (post (productItemHandler L e s r)) = cached s \<or>
   cached (post (productItemHandler L e s r)) = None"
  by (auto simp: productItemHandler_def Let_def cached_def invalidate_def redis_Del_def
      split: option.splits prod.splits)

text \<open>
  The bound on the expiry of the entry holds of a cache without entry, and each
  handler keeps it as the clock advances.
\<close>

lemma ttl_bounded_cold: "cached s = None \<Longrightarrow> ttl_bounded t s"
  by (simp add: ttl_bounded_def)

lemma ttl_bounded_getProducts:
  "ttl_bounded t s \<Longrightarrow> t \<le> t' \<Longrightarrow> now e \<le> t' \<Longrightarrow> ttl_bounded t' (post (getProducts L e s))"
  using post_getProducts [of L e s]
  by (auto simp: ttl_bounded_def cached_populate split: option.splits if_splits)

lemma ttl_bounded_createProduct:
  "ttl_bounded t s \<Longrightarrow> t \<le> t' \<Longrightarrow> ttl_bounded t' (post (createProduct L e s r))"
  using cached_createProduct [of L e s r]
  by (auto simp: ttl_bounded_def split: option.splits)

lemma ttl_bounded_productItemHandler:
  "ttl_bounded t s \<Longrightarrow> t \<le> t' \<Longrightarrow> ttl_bounded t' (post (productItemHandler L e s r))"
  using cached_productItemHandler [of L e s r]
  by (auto simp: ttl_bounded_def split: option.splits)

section \<open>Coherence of the cache after a write\<close>




section \<open>Validation of a create request\<close>

text \<open>
  C3. In both variants, a create request whose decoded body has an empty name, a price
  of zero or less, or a negative stock is answered with status 400, and the handler
  calls neither the store nor the cache and leaves the state as it was. A decoded body
  with a non-empty name, a positive price and a stock of zero or more passes the
  validation: the answer is not 400, and the first call of the handler is the
  \<open>INSERT\<close> of the new row.
\<close>

theorem create_validation:
  assumes "decoded r = Some b"
  shows "(body_Name b = [] \<or> body_PriceCents b \<le> 0 \<or> body_Stock b < 0 \<longrightarrow>
            status (resp (createProduct L e s r)) = 400 \<and>
            trace (createProduct L e s r) = [] \<and> post (createProduct L e s r) = s \<and>
            status (resp_v1 (createProduct_v1 L e t r)) = 400 \<and>
            trace_v1 (createProduct_v1 L e t r) = [] \<and> post_v1 (createProduct_v1 L e t r) = t) \<and>
         (body_Name b \<noteq> [] \<and> 0 < body_PriceCents b \<and> 0 \<le> body_Stock b \<longrightarrow>
            status (resp (createProduct L e s r)) \<noteq> 400 \<and>
            (\<exists>tr. trace (createProduct L e s r) = DbExec (INSERT (new_row e b)) # tr) \<and>
            status (resp_v1 (createProduct_v1 L e t r)) \<noteq> 400 \<and>
            trace_v1 (createProduct_v1 L e t r) = [DbExec (INSERT (new_row e b))])"
proof (intro conjI impI)
  assume bad: "body_Name b = [] \<or> body_PriceCents b \<le> 0 \<or> body_Stock b < 0"
  with assms have c: "createProduct L e s r =
      \<lparr>resp = http_Error ''invalid fields'' 400, trace = [], post = s\<rparr>"
    by (simp add: createProduct_def)
  from bad assms have c1: "createProduct_v1 L e t r =
      \<lparr>resp_v1 = http_Error ''invalid fields'' 400, trace_v1 = [], post_v1 = t\<rparr>"
    by (simp add: createProduct_v1_def)
  show "status (resp (createProduct L e s r)) = 400" by (simp add: c)
  show "trace (createProduct L e s r) = []" by (simp add: c)
  show "post (createProduct L e s r) = s" by (simp add: c)
  show "status (resp_v1 (createProduct_v1 L e t r)) = 400" by (simp add: c1)
  show "trace_v1 (createProduct_v1 L e t r) = []" by (simp add: c1)
  show "post_v1 (createProduct_v1 L e t r) = t" by (simp add: c1)
next
  assume good: "body_Name b \<noteq> [] \<and> 0 < body_PriceCents b \<and> 0 \<le> body_Stock b"
  with assms show "status (resp (createProduct L e s r)) \<noteq> 400"
    by (auto simp: createProduct_def split: option.splits prod.splits)
  from good assms show "\<exists>tr. trace (createProduct L e s r) = DbExec (INSERT (new_row e b)) # tr"
    by (auto simp: createProduct_def split: option.splits prod.splits)
  from good assms show "status (resp_v1 (createProduct_v1 L e t r)) \<noteq> 400"
    by (auto simp: createProduct_v1_def split: option.splits)
  from good assms show "trace_v1 (createProduct_v1 L e t r) = [DbExec (INSERT (new_row e b))]"
    by (auto simp: createProduct_v1_def split: option.splits)
qed

text \<open>The theorem at a body without a name and at the body of the widget.\<close>

theorem create_validation_witness:
  "decoded post_nameless = Some nameless \<and> body_Name nameless = [] \<and>
   status (resp (createProduct lib0 env0 empty_cold post_nameless)) = 400 \<and>
   trace (createProduct lib0 env0 empty_cold post_nameless) = [] \<and>
   trace_v1 (createProduct_v1 lib0 env0 [] post_nameless) = [] \<and>
   decoded post_widget = Some widget \<and>
   body_Name widget \<noteq> [] \<and> 0 < body_PriceCents widget \<and> 0 \<le> body_Stock widget \<and>
   trace_v1 (createProduct_v1 lib0 env0 [] post_widget) = [DbExec (INSERT (new_row env0 widget))]"
proof -
  have n: "decoded post_nameless = Some nameless" by (simp add: post_nameless_def)
  have w: "decoded post_widget = Some widget" by (simp add: post_widget_def)
  from create_validation [OF n, of lib0 env0 empty_cold "[]"]
       create_validation [OF w, of lib0 env0 empty_cold "[]"] n w
  show ?thesis by (simp add: nameless_def widget_def)
qed

section \<open>The answer to a create request\<close>

text \<open>
  C4, as amended. For every create request whose body passes the validation and whose
  \<open>INSERT\<close> the store accepts, the answer has status 201 and its body is the encoding
  of the product with the name, the price and the stock of the request, the identifier
  drawn for it and the instant of its creation formatted as RFC3339.
\<close>

theorem create_response:
  assumes "decoded r = Some b"
    and "body_Name b \<noteq> []" and "0 < body_PriceCents b" and "0 \<le> body_Stock b"
    and "db_Exec L (exec_err e) (table s) (INSERT (new_row e b)) = Some t'"
  shows "resp (createProduct L e s r) =
           \<lparr>status = 201, content_type = ''application/json'',
            body = json_Encode L \<lparr>ID = new_id e, Name = body_Name b,
                     PriceCents = body_PriceCents b, Stock = body_Stock b,
                     CreatedAt = RFC3339_UTC L (now e)\<rparr>\<rparr>"
  using assms
  by (simp add: createProduct_def json_response_def new_product_def split: prod.splits)

text \<open>The theorem at the widget, created in the empty table.\<close>

theorem create_response_witness:
  "decoded post_widget = Some widget \<and>
   db_Exec lib0 (exec_err env0) (table empty_cold) (INSERT (new_row env0 widget)) = Some [widget_row] \<and>
   resp (createProduct lib0 env0 empty_cold post_widget) =
     \<lparr>status = 201, content_type = ''application/json'',
      body = ''{6ba7b810-9dad-11d1-80b4-00c04fd430c8,Widget,1970-01-01T00:00:00Z}'' @ line_feed\<rparr>"
proof -
  have d: "decoded post_widget = Some widget" by (simp add: post_widget_def)
  have v: "body_Name widget \<noteq> []" "0 < body_PriceCents widget" "0 \<le> body_Stock widget"
    by (simp_all add: widget_def)
  have x: "db_Exec lib0 (exec_err env0) (table empty_cold) (INSERT (new_row env0 widget)) = Some [widget_row]"
    by (simp add: env0_def empty_cold_def new_row_def widget_def widget_row_def int4_def)
  from create_response [OF d v x] d x show ?thesis
    by (simp add: json_Encode_def lib0_def env0_def widget_def)
qed

text \<open>
  C4 as stated fails: a body that passes the validation with a price of 2147483648 cents
  does not fit the column \<open>price_cents int\<close>; the store refuses the \<open>INSERT\<close> and the
  answer is 500, with no failure of the store's own.
\<close>

theorem create_costly_counterexample:
  "decoded post_costly = Some costly \<and> body_Name costly = ''Widget'' \<and>
   body_PriceCents costly = 2147483648 \<and> body_Stock costly = 0 \<and>
   exec_err env0 = False \<and> table empty_cold = [] \<and>
   resp (createProduct lib0 env0 empty_cold post_costly) = http_Error ''insert error'' 500"
  by (simp add: model_defs input_defs)

section \<open>A delete request with a malformed identifier\<close>

text \<open>
  The two variants on a delete request. The second variant answers with status 400,
  calls nothing and leaves the state as it was when the identifier in the path is
  empty or is refused by \<open>uuid.Parse\<close>, as \<open>not-a-uuid\<close> is. The first variant answers
  400 before any call to the store only for the empty identifier; every other
  identifier goes to the store in a \<open>DELETE\<close>, and the answer is then never 400.
\<close>

theorem delete_malformed_id:
  assumes "Method r = ''DELETE''"
  shows "(strings_TrimPrefix (Path r) ''/products/'' = [] \<or>
          \<not> uuid_Parse L (strings_TrimPrefix (Path r) ''/products/'') \<longrightarrow>
            status (resp (productItemHandler L e s r)) = 400 \<and>
            trace (productItemHandler L e s r) = [] \<and> post (productItemHandler L e s r) = s) \<and>
         (Path r = ''/products/not-a-uuid'' \<longrightarrow>
            resp (productItemHandler L e s r) = http_Error ''invalid id (must be UUID)'' 400 \<and>
            trace (productItemHandler L e s r) = []) \<and>
         (Path r = ''/products/'' \<longrightarrow>
            productItemHandler_v1 L e t r =
              Some \<lparr>resp_v1 = http_Error ''missing id'' 400, trace_v1 = [], post_v1 = t\<rparr>) \<and>
         (length ''/products/'' < length (Path r) \<longrightarrow>
            (\<exists>res. productItemHandler_v1 L e t r = Some res \<and>
               trace_v1 res = [DbExec (DELETE (drop (length ''/products/'') (Path r)))] \<and>
               status (resp_v1 res) \<noteq> 400))"
proof (intro conjI impI)
  assume "strings_TrimPrefix (Path r) ''/products/'' = [] \<or>
          \<not> uuid_Parse L (strings_TrimPrefix (Path r) ''/products/'')"
  with assms show "status (resp (productItemHandler L e s r)) = 400"
    and "trace (productItemHandler L e s r) = []" and "post (productItemHandler L e s r) = s"
    by (auto simp: productItemHandler_def Let_def)
next
  assume p: "Path r = ''/products/not-a-uuid''"
  with assms show "resp (productItemHandler L e s r) = http_Error ''invalid id (must be UUID)'' 400"
    and "trace (productItemHandler L e s r) = []"
    by (simp_all add: productItemHandler_def Let_def strings_TrimPrefix_def uuid_Parse_def)
next
  assume "Path r = ''/products/''"
  with assms show "productItemHandler_v1 L e t r =
      Some \<lparr>resp_v1 = http_Error ''missing id'' 400, trace_v1 = [], post_v1 = t\<rparr>"
    by (simp add: productItemHandler_v1_def)
next
  assume "length ''/products/'' < length (Path r)"
  with assms show "\<exists>res. productItemHandler_v1 L e t r = Some res \<and>
               trace_v1 res = [DbExec (DELETE (drop (length ''/products/'') (Path r)))] \<and>
               status (resp_v1 res) \<noteq> 400"
    by (auto simp: productItemHandler_v1_def Let_def split: option.splits)
qed

text \<open>The fact at the request \<open>DELETE /products/not-a-uuid\<close>.\<close>

theorem delete_malformed_id_witness:
  "Method delete_not_a_uuid = ''DELETE'' \<and> Path delete_not_a_uuid = ''/products/not-a-uuid'' \<and>
   resp (productItemHandler lib0 env0 empty_cold delete_not_a_uuid) =
     http_Error ''invalid id (must be UUID)'' 400 \<and>
   trace (productItemHandler lib0 env0 empty_cold delete_not_a_uuid) = []"
proof -
  have m: "Method delete_not_a_uuid = ''DELETE''" by (simp add: delete_not_a_uuid_def)
  have p: "Path delete_not_a_uuid = ''/products/not-a-uuid''" by (simp add: delete_not_a_uuid_def)
  from delete_malformed_id [OF m, where L = lib0 and e = env0 and s = empty_cold and t = "[]"] m p
  show ?thesis by simp
qed

text \<open>
  C5. A delete request whose identifier is not well formed, \<open>not-a-uuid\<close> for one, is to
  be answered 400 before any call to the store. The second variant does so (the fact
  above). The first variant does not: for \<open>DELETE /products/not-a-uuid\<close> its handler
  calls the store with the identifier as it came, and answers 204 when the store
  executes the statement and 500 when the store refuses it.
\<close>

theorem delete_not_a_uuid_v1:
  "productItemHandler_v1 lib0 env0 [widget_row] delete_not_a_uuid =
     Some \<lparr>resp_v1 = \<lparr>status = 204, content_type = [], body = []\<rparr>,
           trace_v1 = [DbExec (DELETE ''not-a-uuid'')], post_v1 = [widget_row]\<rparr> \<and>
   productItemHandler_v1 lib0 (env0\<lparr>exec_err := True\<rparr>) [widget_row] delete_not_a_uuid =
     Some \<lparr>resp_v1 = http_Error ''db error'' 500,
           trace_v1 = [DbExec (DELETE ''not-a-uuid'')], post_v1 = [widget_row]\<rparr>"
  by (simp add: model_defs input_defs)

section \<open>Idempotence of delete\<close>



section \<open>The read path\<close>




section \<open>The listing of an empty store\<close>

text \<open>
  C10. When the table is empty, the cache has no entry under the key (or the service
  has no cache) and the query succeeds, a list request is answered with status 200 and
  the empty JSON array: the body is \<open>[]\<close> in the second variant and \<open>[]\<close> followed by
  the line feed of \<open>Encoder.Encode\<close> in the first. It is not \<open>null\<close>, because the loop
  starts from the empty slice of \<open>make([]Product, 0)\<close> and not from the nil slice,
  which is the one that serializes to \<open>null\<close>.
\<close>

theorem empty_store_lists_empty_array:
  assumes "table s = []" and "cached s = None" and "\<not> query_err e"
  shows "resp (getProducts L e s) = json_response 200 ''[]'' \<and>
         resp_v1 (getProducts_v1 L e []) = json_response 200 (''[]'' @ line_feed) \<and>
         scan_rows L (scan_err e) [] make_slice = Some (Slice []) \<and>
         json_Marshal L (Slice []) = ''[]'' \<and> json_Marshal L nil_slice = ''null''"
proof -
  from assms(2) have p: "cache_probe e s = None"
    by (auto simp: cache_probe_def cached_def redis_Get_def split: option.splits)
  have "getProducts_read L e s = (json_response 200 ''[]'', probe_trace s @ [DbQuery], Some ''[]'')"
    using assms(1,3) p by (simp add: getProducts_read_def db_Query_def make_slice_def Let_def)
  then have "resp (getProducts L e s) = json_response 200 ''[]''"
    by (simp add: resp_getProducts)
  moreover have "resp_v1 (getProducts_v1 L e []) = json_response 200 (''[]'' @ line_feed)"
    using assms(3) by (simp add: getProducts_v1_def db_Query_def make_slice_def json_Encode_list_def)
  ultimately show ?thesis by (simp add: make_slice_def)
qed

text \<open>The theorem at the empty table, with a cold cache and without cache.\<close>

theorem empty_store_lists_empty_array_witness:
  "table empty_cold = [] \<and> cached empty_cold = None \<and> \<not> query_err env0 \<and>
   resp (getProducts lib0 env0 empty_cold) =
     \<lparr>status = 200, content_type = ''application/json'', body = ''[]''\<rparr> \<and>
   resp (getProducts lib0 env0 empty_nocache) =
     \<lparr>status = 200, content_type = ''application/json'', body = ''[]''\<rparr> \<and>
   resp_v1 (getProducts_v1 lib0 env0 []) =
     \<lparr>status = 200, content_type = ''application/json'', body = ''[]'' @ line_feed\<rparr>"
proof -
  have t: "table empty_cold = []" "table empty_nocache = []"
    by (simp_all add: empty_cold_def empty_nocache_def)
  have c: "cached empty_cold = None" "cached empty_nocache = None"
    by (simp_all add: empty_cold_def empty_nocache_def cached_def)
  have q: "\<not> query_err env0" by (simp add: env0_def)
  from empty_store_lists_empty_array [OF t(1) c(1) q, of lib0]
       empty_store_lists_empty_array [OF t(2) c(2) q, of lib0] t c q
  show ?thesis by (simp add: json_response_def)
qed

section \<open>Failures of the cache\<close>

text \<open>
  Helper facts: the answer of each handler in a state and in the same state without
  cache.
\<close>

lemma resp_read_miss:
  "cache_probe e s = None \<Longrightarrow> cache_probe e s' = None \<Longrightarrow> table s' = table s \<Longrightarrow>
     fst (getProducts_read L e s) = fst (getProducts_read L e s')"
  by (simp add: getProducts_read_def Let_def split: option.splits)

lemma probe_no_cache: "cache_probe e (no_cache s) = None"
  by (simp add: cache_probe_def no_cache_def)

lemma probe_get_err: "get_err e \<Longrightarrow> cache_probe e s = None"
  by (auto simp: cache_probe_def redis_Get_def split: option.splits)

lemma probe_no_rdb: "rdb s = None \<Longrightarrow> cache_probe e s = None"
  by (simp add: cache_probe_def)

lemma resp_create_no_cache:
  "resp (createProduct L e s r) = resp (createProduct L e (no_cache s) r)"
  by (simp add: createProduct_def no_cache_def invalidate_def split: option.splits prod.splits)

lemma resp_delete_no_cache:
  "resp (productItemHandler L e s r) = resp (productItemHandler L e (no_cache s) r)"
  by (simp add: productItemHandler_def no_cache_def invalidate_def Let_def
      split: option.splits prod.splits)

lemma resp_list_no_cache:
  assumes "cache_probe e s = None"
  shows "resp (getProducts L e s) = resp (getProducts L e (no_cache s))"
proof -
  have "table (no_cache s) = table s" by (simp add: no_cache_def)
  from resp_read_miss [OF assms probe_no_cache this, of L] show ?thesis
    by (simp add: resp_getProducts)
qed

text \<open>
  C7. No failure of the cache reaches the caller. A list request whose \<open>Get\<close> fails,
  or that is served without cache, has the answer (status and body) of the same
  request served without cache; so has a list request that found no value and whose
  \<open>Set\<close> fails, and when the store answers this is the fresh listing with status
  200. A create or a delete whose \<open>Del\<close> fails, or that is served without cache, has
  the answer of the same request served without cache.
\<close>

theorem cache_failures_not_surfaced:
  "(get_err e \<or> rdb s = None \<longrightarrow>
      resp (getProducts L e s) = resp (getProducts L e (no_cache s))) \<and>
   (cache_probe e s = None \<and> set_err e \<longrightarrow>
      resp (getProducts L e s) = resp (getProducts L e (no_cache s))) \<and>
   (cache_probe e s = None \<and> set_err e \<and> \<not> query_err e \<and> \<not> scan_err e \<longrightarrow>
      resp (getProducts L e s) = json_response 200 (listing L (table s))) \<and>
   (del_err e \<or> rdb s = None \<longrightarrow>
      resp (createProduct L e s r) = resp (createProduct L e (no_cache s) r) \<and>
      resp (productItemHandler L e s r) = resp (productItemHandler L e (no_cache s) r))"
proof (intro conjI impI)
  assume "get_err e \<or> rdb s = None"
  then have "cache_probe e s = None"
    using probe_get_err [of e s] probe_no_rdb [of s e] by blast
  then show "resp (getProducts L e s) = resp (getProducts L e (no_cache s))"
    by (rule resp_list_no_cache)
next
  assume "cache_probe e s = None \<and> set_err e"
  then show "resp (getProducts L e s) = resp (getProducts L e (no_cache s))"
    by (simp add: resp_list_no_cache)
next
  assume a: "cache_probe e s = None \<and> set_err e \<and> \<not> query_err e \<and> \<not> scan_err e"
  then have q: "db_Query (query_err e) (table s) = Some (sort_key (\<lambda>r. - r_created_at r) (table s))"
    by (simp add: db_Query_def)
  from a have sc: "scan_rows L (scan_err e) (sort_key (\<lambda>r. - r_created_at r) (table s)) make_slice =
      Some (Slice (map (scan L) (sort_key (\<lambda>r. - r_created_at r) (table s))))"
    by (simp add: scan_rows_make_ok)
  from a read_miss [OF _ q sc]
  show "resp (getProducts L e s) = json_response 200 (listing L (table s))"
    by (simp add: resp_getProducts)
next
  show "resp (createProduct L e s r) = resp (createProduct L e (no_cache s) r)"
    by (rule resp_create_no_cache)
next
  show "resp (productItemHandler L e s r) = resp (productItemHandler L e (no_cache s) r)"
    by (rule resp_delete_no_cache)
qed

text \<open>
  The theorem with every call to the cache failing, in the state whose cache holds the
  listing of the empty table: the create and the delete succeed, and the list request
  after the create answers the fresh listing, as they do without cache.
\<close>

theorem cache_failures_not_surfaced_witness:
  "get_err env_cache_down \<and> set_err env_cache_down \<and> del_err env_cache_down \<and>
   cached empty_warm = Some (''[]'', 20 * time_Second) \<and>
   resp (getProducts lib0 env_cache_down (post (createProduct lib0 env_cache_down empty_warm post_widget))) =
     json_response 200 ''[{6ba7b810-9dad-11d1-80b4-00c04fd430c8,Widget,1970-01-01T00:00:00Z}]'' \<and>
   resp (getProducts lib0 env_cache_down (no_cache (post (createProduct lib0 env_cache_down empty_warm post_widget)))) =
     json_response 200 ''[{6ba7b810-9dad-11d1-80b4-00c04fd430c8,Widget,1970-01-01T00:00:00Z}]'' \<and>
   status (resp (createProduct lib0 env_cache_down empty_warm post_widget)) = 201 \<and>
   status (resp (createProduct lib0 env_cache_down (no_cache empty_warm) post_widget)) = 201 \<and>
   status (resp (productItemHandler lib0 env_cache_down empty_warm delete_widget)) = 204 \<and>
   status (resp (productItemHandler lib0 env_cache_down (no_cache empty_warm) delete_widget)) = 204"
proof -
  have f: "get_err env_cache_down" "set_err env_cache_down" "del_err env_cache_down"
    by (simp_all add: env_cache_down_def)
  have c: "cached empty_warm = Some (''[]'', 20 * time_Second)"
    by (simp add: cached_def empty_warm_def stale_cache_def)
  have l: "resp (getProducts lib0 env_cache_down
             (no_cache (post (createProduct lib0 env_cache_down empty_warm post_widget)))) =
     json_response 200 ''[{6ba7b810-9dad-11d1-80b4-00c04fd430c8,Widget,1970-01-01T00:00:00Z}]''"
    by (simp add: model_defs input_defs no_cache_def)
  have w: "status (resp (createProduct lib0 env_cache_down (no_cache empty_warm) post_widget)) = 201"
    by (simp add: model_defs input_defs no_cache_def)
  have d: "status (resp (productItemHandler lib0 env_cache_down (no_cache empty_warm) delete_widget)) = 204"
    by (simp add: model_defs input_defs no_cache_def)
  from cache_failures_not_surfaced
         [of env_cache_down "post (createProduct lib0 env_cache_down empty_warm post_widget)" lib0]
       cache_failures_not_surfaced [of env_cache_down empty_warm lib0 post_widget]
       cache_failures_not_surfaced [of env_cache_down empty_warm lib0 delete_widget]
       f c l w d
  show ?thesis by simp
qed

section \<open>The order of a listing\<close>

text \<open>
  Helper facts: every handler, and the late population of the cache by a list request
  that overlapped other requests, keeps the entry of the cache an ordered
  serialization.
\<close>

lemma ordered_listing: "ordered_value L (listing L t)"
  unfolding ordered_value_def listing_def
  using sorted_desc_query [of t] by blast

lemma ordered_populate:
  "ordered_cache L s \<Longrightarrow> ordered_value L b \<Longrightarrow>
     ordered_cache L (snd (getProducts_populate e b s))"
  by (simp add: ordered_cache_def cached_populate)

lemma ordered_getProducts: "ordered_cache L s \<Longrightarrow> ordered_cache L (post (getProducts L e s))"
  using post_getProducts [of L e s] ordered_populate [OF _ ordered_listing, of L s e "table s"]
  by auto

lemma ordered_createProduct:
  "ordered_cache L s \<Longrightarrow> ordered_cache L (post (createProduct L e s r))"
  using cached_createProduct [of L e s r] by (auto simp: ordered_cache_def)

lemma ordered_productItemHandler:
  "ordered_cache L s \<Longrightarrow> ordered_cache L (post (productItemHandler L e s r))"
  using cached_productItemHandler [of L e s r] by (auto simp: ordered_cache_def)

lemma ordered_productsHandler:
  "ordered_cache L s \<Longrightarrow> ordered_cache L (post (productsHandler L e s r))"
  by (simp add: productsHandler_def ordered_getProducts ordered_createProduct)

lemma ordered_reachable:
  "reachable L s0 s \<Longrightarrow> ordered_cache L s0 \<Longrightarrow> ordered_cache L s"
proof (induction rule: reachable.induct)
  case start
  then show ?case by simp
next
  case (products s e r)
  then show ?case by (simp add: ordered_productsHandler)
next
  case (item s e r)
  then show ?case by (simp add: ordered_productItemHandler)
next
  case (late_populate s1 e rp tr b s2 e')
  from read_Some [OF late_populate.hyps(2)] have "ordered_value L b"
    by (simp add: ordered_listing)
  with late_populate show ?case by (simp add: ordered_populate)
qed

text \<open>
  C8. Start from a state whose cache entry, if any, is the serialization of rows in
  descending order of creation (an empty cache, for one). In every state that the
  service reaches from it, overlapping list requests included, the entry of the cache
  is again such a serialization, and the body of every list request answered with
  status 200 is the serialization of rows in descending order of creation, whether it
  comes from the cache or from the store.
\<close>

theorem listing_ordered:
  assumes "ordered_cache L s0" and "reachable L s0 s"
    and "status (resp (getProducts L e s)) = 200"
  shows "ordered_cache L s \<and>
         (\<exists>rows. sorted_desc rows \<and>
            body (resp (getProducts L e s)) = json_Marshal L (Slice (map (scan L) rows)))"
proof -
  from ordered_reachable [OF assms(2,1)] have oc: "ordered_cache L s" .
  obtain r tr ob where f: "getProducts_read L e s = (r, tr, ob)"
    by (cases "getProducts_read L e s")
  with assms(3) have "status r = 200" by (simp add: resp_getProducts)
  from read_cases [OF f this] have "ordered_value L (body r)"
  proof
    assume "cache_probe e s = Some (body r) \<and> ob = None"
    then obtain expiry where "cached s = Some (body r, expiry)"
      using probe_cached by blast
    with oc show ?thesis by (simp add: ordered_cache_def)
  next
    assume "cache_probe e s = None \<and> body r = listing L (table s) \<and> ob = Some (listing L (table s))"
    then show ?thesis by (simp add: ordered_listing)
  qed
  with f oc show ?thesis
    by (simp add: resp_getProducts ordered_value_def)
qed

text \<open>
  The theorem at a table of two rows inserted oldest first, with an empty cache: the
  first list request reads the store, the second one is served from the cache, and
  both list the newer row first.
\<close>

theorem listing_ordered_witness:
  "ordered_cache lib0 two_cold \<and>
   reachable lib0 two_cold (post (productsHandler lib0 env0 two_cold get_products)) \<and>
   resp (getProducts lib0 env0 two_cold) = json_response 200 ''[{b,New,later},{a,Old,1970-01-01T00:00:00Z}]'' \<and>
   resp (getProducts lib0 env0 (post (productsHandler lib0 env0 two_cold get_products))) =
     json_response 200 ''[{b,New,later},{a,Old,1970-01-01T00:00:00Z}]'' \<and>
   ordered_cache lib0 (post (productsHandler lib0 env0 two_cold get_products)) \<and>
   sorted_desc (rev two_rows)"
proof -
  have o: "ordered_cache lib0 two_cold"
    by (simp add: ordered_cache_def cached_def two_cold_def)
  have r0: "reachable lib0 two_cold two_cold" by (rule reachable.start)
  have r1: "reachable lib0 two_cold (post (productsHandler lib0 env0 two_cold get_products))"
    by (rule reachable.products) (rule reachable.start)
  have b0: "resp (getProducts lib0 env0 two_cold) =
      json_response 200 ''[{b,New,later},{a,Old,1970-01-01T00:00:00Z}]''"
    by (simp add: model_defs input_defs)
  have b1: "resp (getProducts lib0 env0 (post (productsHandler lib0 env0 two_cold get_products))) =
      json_response 200 ''[{b,New,later},{a,Old,1970-01-01T00:00:00Z}]''"
    by (simp add: model_defs input_defs)
  have s: "sorted_desc (rev two_rows)"
    by (simp add: sorted_desc_def two_rows_def)
  from b1 have "status (resp (getProducts lib0 env0
      (post (productsHandler lib0 env0 two_cold get_products)))) = 200"
    by simp
  from listing_ordered [OF o r1 this] o r1 b0 b1 s show ?thesis by simp
qed

section \<open>Create, then list\<close>




end
